theory Spec2Isabelle
  imports Main "HOL-Library.Word"
begin

section \<open>The SMBus transport of go-daq/smbus\<close>

text \<open>
  The package opens the character device \<^verbatim>\<open>/dev/i2c-N\<close> and talks to the kernel's
  i2c-dev driver with two ioctl requests: \<^verbatim>\<open>I2C_SLAVE\<close> (select the device address)
  and \<^verbatim>\<open>I2C_SMBUS\<close> (one register transaction, described by an \<^verbatim>\<open>i2cCmd\<close> structure
  that points at the payload). The kernel is not part of the package: every function
  below takes it as a parameter \<open>K\<close>, a record of the three system calls the package
  makes. The process memory the calls read and write is an explicit heap of byte
  arrays, so that a Go slice is a view (array, offset, length, capacity) on one of them.
\<close>

subsection \<open>Machine types and constants\<close>

type_synonym u8 = "8 word"
type_synonym u32 = "32 word"

text \<open>
  \<^verbatim>\<open>syscall.Errno\<close> is a \<^verbatim>\<open>uintptr\<close>; 0 means success. An \<^verbatim>\<open>*os.File\<close> is its
  descriptor (\<^verbatim>\<open>f.Fd()\<close>) and the name it was opened with (\<^verbatim>\<open>f.Name()\<close>).
\<close>

type_synonym errno = nat
type_synonym fd = nat

record File =
  Fd :: fd
  Name :: string

definition i2cSlave :: nat where "i2cSlave = 0x0703"
definition i2cSlaveForce :: nat where "i2cSlaveForce = 0x0706"
definition i2cFuncs :: nat where "i2cFuncs = 0x0705"
definition i2cSMBus :: nat where "i2cSMBus = 0x0720"

definition i2cSMBusWrite :: u8 where "i2cSMBusWrite = 0"
definition i2cSMBusRead :: u8 where "i2cSMBusRead = 1"

definition i2cSMBusWordData :: u32 where "i2cSMBusWordData = 3"
definition i2cSMBusBlockData :: u32 where "i2cSMBusBlockData = 5"
definition i2cSMBusI2CBlockData :: u32 where "i2cSMBusI2CBlockData = 8"
definition i2cSMBusBlockMax :: u32 where "i2cSMBusBlockMax = 32"

text \<open>\<^verbatim>\<open>os.O_RDWR\<close> and the permission bits \<^verbatim>\<open>0600\<close> (octal) of the two open calls.\<close>

definition O_RDWR :: nat where "O_RDWR = 2"
definition perm0600 :: nat where "perm0600 = 384"

text \<open>
  Go's \<^verbatim>\<open>error\<close> values that the package can return: its own sentinel
  \<^verbatim>\<open>errSMBusBlockDataMax\<close>, a \<^verbatim>\<open>syscall.Errno\<close> from an ioctl, and the
  \<^verbatim>\<open>*os.PathError\<close> of a failed call of package \<^verbatim>\<open>os\<close> (operation, path and errno).
\<close>

datatype error = errSMBusBlockDataMax | Errno errno | PathError string string errno

subsection \<open>Process memory and slices\<close>

text \<open>
  The heap is a list of byte arrays; an array is named by its index and allocation
  appends, so a new array never aliases an old one. A pointer is an array and an
  offset into it.
\<close>

type_synonym memory = "u8 list list"
type_synonym pointer = "nat \<times> nat"

record slice =
  sarr :: nat
  soff :: nat
  slen :: nat
  scap :: nat

definition wf_slice :: "memory \<Rightarrow> slice \<Rightarrow> bool" where
  "wf_slice h s = (sarr s < length h \<and> slen s \<le> scap s \<and> soff s + scap s \<le> length (h ! sarr s))"

text \<open>The elements of a slice, as Go code reads them.\<close>

definition elems :: "memory \<Rightarrow> slice \<Rightarrow> u8 list" where
  "elems h s = take (slen s) (drop (soff s) (h ! sarr s))"


text \<open>\<^verbatim>\<open>make([]byte, n, c)\<close>: a fresh zeroed array of \<open>c\<close> bytes and a slice of its first \<open>n\<close>.\<close>

definition make_bytes :: "memory \<Rightarrow> nat \<Rightarrow> nat \<Rightarrow> slice \<times> memory" where
  "make_bytes h n c = (\<lparr>sarr = length h, soff = 0, slen = n, scap = c\<rparr>, h @ [replicate c 0])"

text \<open>\<^verbatim>\<open>s[i] = v\<close>.\<close>

definition slice_set :: "memory \<Rightarrow> slice \<Rightarrow> nat \<Rightarrow> u8 \<Rightarrow> memory" where
  "slice_set h s i v = h[sarr s := (h ! sarr s)[soff s + i := v]]"

text \<open>\<^verbatim>\<open>s[i:j]\<close>: same array, the window moved.\<close>

definition reslice :: "slice \<Rightarrow> nat \<Rightarrow> nat \<Rightarrow> slice" where
  "reslice s i j = \<lparr>sarr = sarr s, soff = soff s + i, slen = j - i, scap = scap s - i\<rparr>"

text \<open>\<^verbatim>\<open>&s[i]\<close>.\<close>

definition addr_of :: "slice \<Rightarrow> nat \<Rightarrow> pointer" where
  "addr_of s i = (sarr s, soff s + i)"

text \<open>
  The builtin \<^verbatim>\<open>copy(dst, src)\<close>: it copies \<open>min (len dst) (len src)\<close> elements to the
  start of \<open>dst\<close> and returns that number.
\<close>

definition copy :: "memory \<Rightarrow> slice \<Rightarrow> slice \<Rightarrow> nat \<times> memory" where
  "copy h dst src =
     (let n = min (slen dst) (slen src);
          xs = take n (elems h src);
          a = h ! sarr dst
      in (n, h[sarr dst := take (soff dst) a @ xs @ drop (soff dst + n) a]))"

text \<open>
  What a system call does to user memory: the kernel copies the bytes \<open>wr\<close> to the
  address it was given. Bytes past the end of the array the pointer lies in are not
  part of the model.
\<close>

definition poke :: "u8 list \<Rightarrow> u8 list \<Rightarrow> u8 list" where
  "poke wr m = take (length m) (wr @ drop (length wr) m)"

definition store :: "memory \<Rightarrow> pointer \<Rightarrow> u8 list \<Rightarrow> memory" where
  "store h p wr =
     (let a = h ! fst p in h[fst p := take (snd p) a @ poke wr (drop (snd p) a)])"

subsection \<open>The kernel interface\<close>

text \<open>The structure \<^verbatim>\<open>i2cCmd\<close> handed to the \<^verbatim>\<open>I2C_SMBUS\<close> ioctl.\<close>

record i2cCmd =
  rw :: u8
  cmd :: u8
  len :: u32
  ptr :: pointer

text \<open>
  The third argument of \<^verbatim>\<open>ioctl\<close> is a \<^verbatim>\<open>uintptr\<close>: a plain number (the address to
  select) or the address of an \<^verbatim>\<open>i2cCmd\<close>.
\<close>

datatype uintptr = UVal nat | UPtr i2cCmd

text \<open>
  What the kernel reads through that argument: the number, or the fields of the
  command together with the bytes that lie at its \<^verbatim>\<open>ptr\<close>.
\<close>

datatype sysarg = Val nat | Cmd u8 u8 u32 "u8 list"

datatype event = EvOpen string | EvClose fd | EvIoctl fd nat sysarg

text \<open>
  The kernel: a state of any type \<open>'k\<close> and the three system calls. \<open>k_ioctl\<close>
  returns the errno and the bytes the kernel writes back at the payload pointer.
\<close>

record 'k kernel =
  k_open :: "string \<Rightarrow> nat \<Rightarrow> nat \<Rightarrow> 'k \<Rightarrow> (errno + fd) \<times> 'k"
  k_close :: "fd \<Rightarrow> 'k \<Rightarrow> errno \<times> 'k"
  k_ioctl :: "fd \<Rightarrow> nat \<Rightarrow> sysarg \<Rightarrow> 'k \<Rightarrow> (errno \<times> u8 list) \<times> 'k"

text \<open>
  The world a call runs in: the kernel's state, the process memory, the descriptors
  the process holds open, and the log of the system calls made so far.
\<close>

record 'k world =
  kern :: 'k
  heap :: memory
  open_files :: "fd list"
  trace :: "event list"

definition deref :: "memory \<Rightarrow> uintptr \<Rightarrow> sysarg" where
  "deref h arg =
     (case arg of
        UVal n \<Rightarrow> Val n
      | UPtr c \<Rightarrow> Cmd (rw c) (cmd c) (len c) (drop (snd (ptr c)) (h ! fst (ptr c))))"

text \<open>
  \<^verbatim>\<open>ioctl(fd, cmd, arg)\<close>: one \<^verbatim>\<open>SYS_IOCTL\<close>; a non-zero errno becomes the error.
\<close>

definition ioctl :: "'k kernel \<Rightarrow> fd \<Rightarrow> nat \<Rightarrow> uintptr \<Rightarrow> 'k world \<Rightarrow> error option \<times> 'k world" where
  "ioctl K d req arg w =
     (case k_ioctl K d req (deref (heap w) arg) (kern w) of
        ((e1, wr), k') \<Rightarrow>
          (if e1 \<noteq> 0 then Some (Errno e1) else None,
           w\<lparr>kern := k',
             heap := (case arg of UVal n \<Rightarrow> heap w | UPtr c \<Rightarrow> store (heap w) (ptr c) wr),
             trace := trace w @ [EvIoctl d req (deref (heap w) arg)]\<rparr>))"

text \<open>\<^verbatim>\<open>os.OpenFile(name, flag, perm)\<close>.\<close>

definition os_OpenFile :: "'k kernel \<Rightarrow> string \<Rightarrow> nat \<Rightarrow> nat \<Rightarrow> 'k world \<Rightarrow> (error + File) \<times> 'k world" where
  "os_OpenFile K name flag perm w =
     (case k_open K name flag perm (kern w) of
        (Inl e, k') \<Rightarrow>
          (Inl (PathError ''open'' name e), w\<lparr>kern := k', trace := trace w @ [EvOpen name]\<rparr>)
      | (Inr d, k') \<Rightarrow>
          (Inr \<lparr>Fd = d, Name = name\<rparr>,
           w\<lparr>kern := k', open_files := d # open_files w, trace := trace w @ [EvOpen name]\<rparr>))"

text \<open>\<^verbatim>\<open>f.Close()\<close>: the descriptor is released whatever \<^verbatim>\<open>close(2)\<close> answers.\<close>

definition os_Close :: "'k kernel \<Rightarrow> File \<Rightarrow> 'k world \<Rightarrow> error option \<times> 'k world" where
  "os_Close K file w =
     (case k_close K (Fd file) (kern w) of
        (e, k') \<Rightarrow>
          (if e \<noteq> 0 then Some (PathError ''close'' (Name file) e) else None,
           w\<lparr>kern := k', open_files := removeAll (Fd file) (open_files w),
             trace := trace w @ [EvClose (Fd file)]\<rparr>))"

text \<open>\<^verbatim>\<open>fmt.Sprintf("/dev/i2c-%d", bus)\<close>: the decimal rendering of a Go \<^verbatim>\<open>int\<close>.\<close>

fun digits :: "nat \<Rightarrow> string" where
  "digits n =
     (if n < 10 then [''0123456789'' ! n]
      else digits (n div 10) @ [''0123456789'' ! (n mod 10)])"

declare digits.simps [simp del]

definition itoa :: "int \<Rightarrow> string" where
  "itoa i = (if i < 0 then ''-'' @ digits (nat (- i)) else digits (nat i))"

definition dev_path :: "int \<Rightarrow> string" where
  "dev_path bus = ''/dev/i2c-'' @ itoa bus"

subsection \<open>The package\<close>

text \<open>\<^verbatim>\<open>type Conn struct { f *os.File }\<close>.\<close>

record Conn =
  f :: File

text \<open>\<^verbatim>\<open>OpenFile(bus)\<close>; \<open>Inl\<close> is the result \<^verbatim>\<open>(nil, err)\<close>.\<close>

definition OpenFile :: "'k kernel \<Rightarrow> int \<Rightarrow> 'k world \<Rightarrow> (error + Conn) \<times> 'k world" where
  "OpenFile K bus w =
     (case os_OpenFile K (dev_path bus) O_RDWR perm0600 w of
        (Inl err, w1) \<Rightarrow> (Inl err, w1)
      | (Inr file, w1) \<Rightarrow> (Inr \<lparr>f = file\<rparr>, w1))"

text \<open>\<^verbatim>\<open>Open(bus, addr)\<close>.\<close>

definition Open :: "'k kernel \<Rightarrow> int \<Rightarrow> u8 \<Rightarrow> 'k world \<Rightarrow> (error + Conn) \<times> 'k world" where
  "Open K bus a w =
     (case os_OpenFile K (dev_path bus) O_RDWR perm0600 w of
        (Inl err, w1) \<Rightarrow> (Inl err, w1)
      | (Inr file, w1) \<Rightarrow>
          (case ioctl K (Fd file) i2cSlave (UVal (unat a)) w1 of
             (Some err, w2) \<Rightarrow> (Inl err, w2)
           | (None, w2) \<Rightarrow> (Inr \<lparr>f = file\<rparr>, w2)))"

text \<open>\<^verbatim>\<open>c.Close()\<close>.\<close>

definition Close :: "'k kernel \<Rightarrow> Conn \<Rightarrow> 'k world \<Rightarrow> error option \<times> 'k world" where
  "Close K c w = os_Close K (f c) w"

text \<open>\<^verbatim>\<open>c.addr(addr)\<close> and the exported \<^verbatim>\<open>c.SetAddr(addr)\<close>.\<close>

definition addr :: "'k kernel \<Rightarrow> Conn \<Rightarrow> u8 \<Rightarrow> 'k world \<Rightarrow> error option \<times> 'k world" where
  "addr K c a w = ioctl K (Fd (f c)) i2cSlave (UVal (unat a)) w"








text \<open>
  \<^verbatim>\<open>c.ReadBlockData(addr, reg, buf)\<close>. The index \<^verbatim>\<open>data[0]\<close> and the slice expressions
  are always in range (\<open>data\<close> has length \<open>len buf + 1 \<ge> 1\<close> and capacity 34), so no
  run-time panic is reachable.
\<close>

definition ReadBlockData :: "'k kernel \<Rightarrow> Conn \<Rightarrow> u8 \<Rightarrow> u8 \<Rightarrow> slice \<Rightarrow> 'k world \<Rightarrow> error option \<times> 'k world" where
  "ReadBlockData K c a reg buf w =
     (if slen buf > unat i2cSMBusBlockMax then (Some errSMBusBlockDataMax, w)
      else
        (case addr K c a w of
           (Some err, w1) \<Rightarrow> (Some err, w1)
         | (None, w1) \<Rightarrow>
             (case make_bytes (heap w1) (slen buf + 1) (unat (i2cSMBusBlockMax + 2)) of
                (data, h1) \<Rightarrow>
                  (case ioctl K (Fd (f c)) i2cSMBus
                          (UPtr \<lparr>rw = i2cSMBusRead, cmd = reg, len = i2cSMBusI2CBlockData,
                                 ptr = addr_of data 0\<rparr>)
                          (w1\<lparr>heap := slice_set h1 data 0 (of_nat (slen buf))\<rparr>) of
                     (Some err, w2) \<Rightarrow> (Some err, w2)
                   | (None, w2) \<Rightarrow>
                       (None,
                        w2\<lparr>heap := snd (copy (heap w2) (reslice buf 0 (slen buf))
                                             (reslice data 1 (slen buf + 1)))\<rparr>)))))"

text \<open>\<^verbatim>\<open>c.WriteBlockData(addr, reg, buf)\<close>; \<^verbatim>\<open>data[1:]\<close> is \<^verbatim>\<open>data[1:len(data)]\<close>.\<close>

definition WriteBlockData :: "'k kernel \<Rightarrow> Conn \<Rightarrow> u8 \<Rightarrow> u8 \<Rightarrow> slice \<Rightarrow> 'k world \<Rightarrow> error option \<times> 'k world" where
  "WriteBlockData K c a reg buf w =
     (if slen buf > unat i2cSMBusBlockMax then (Some errSMBusBlockDataMax, w)
      else
        (case addr K c a w of
           (Some err, w1) \<Rightarrow> (Some err, w1)
         | (None, w1) \<Rightarrow>
             (case make_bytes (heap w1) (1 + slen buf) (unat (i2cSMBusBlockMax + 2)) of
                (data, h1) \<Rightarrow>
                  ioctl K (Fd (f c)) i2cSMBus
                    (UPtr \<lparr>rw = i2cSMBusWrite, cmd = reg, len = i2cSMBusI2CBlockData,
                           ptr = addr_of data 0\<rparr>)
                    (w1\<lparr>heap := snd (copy (slice_set h1 data 0 (of_nat (slen buf)))
                                          (reslice data 1 (slen data)) buf)\<rparr>))))"

subsection \<open>A simulated kernel\<close>

text \<open>
  The test double of the specification's section 8: a bus whose devices keep what is
  written to a register and replay it on a read. It keeps the address selected on each
  descriptor, the last payload written to each (device address, register), and a log of
  the transactions it carried out: the device address each was routed to, its
  direction, its register and its payload on the wire. Its parameters are the device
  files that exist and the addresses the driver accepts in a select.
\<close>

definition ENOENT :: errno where "ENOENT = 2"
definition ENXIO :: errno where "ENXIO = 6"
definition EFAULT :: errno where "EFAULT = 14"
definition EINVAL :: errno where "EINVAL = 22"
definition ENOTTY :: errno where "ENOTTY = 25"

record sim =
  selected :: "fd \<Rightarrow> u8 option"
  regs :: "u8 \<times> u8 \<Rightarrow> u8 list option"
  xfers :: "(u8 \<times> u8 \<times> u8 \<times> u8 list) list"
  next_fd :: fd

text \<open>
  A block on the wire: the kernel takes the first byte of the payload area as the
  length and transfers that byte and as many data bytes as it announces.
\<close>

definition wire :: "u8 list \<Rightarrow> u8 list" where
  "wire m = (case m of [] \<Rightarrow> [] | n # ds \<Rightarrow> n # take (unat n) ds)"

definition payload :: "u32 \<Rightarrow> u8 list \<Rightarrow> u8 list" where
  "payload sz m =
     (if sz = i2cSMBusI2CBlockData then wire m
      else if sz = i2cSMBusWordData then take 2 m
      else take 1 m)"

definition sim_open :: "string list \<Rightarrow> string \<Rightarrow> nat \<Rightarrow> nat \<Rightarrow> sim \<Rightarrow> (errno + fd) \<times> sim" where
  "sim_open files name flag perm k =
     (if name \<in> set files then (Inr (next_fd k), k\<lparr>next_fd := Suc (next_fd k)\<rparr>)
      else (Inl ENOENT, k))"

definition sim_close :: "fd \<Rightarrow> sim \<Rightarrow> errno \<times> sim" where
  "sim_close d k = (0, k\<lparr>selected := (selected k)(d := None)\<rparr>)"

definition sim_ioctl :: "(u8 \<Rightarrow> bool) \<Rightarrow> fd \<Rightarrow> nat \<Rightarrow> sysarg \<Rightarrow> sim \<Rightarrow> (errno \<times> u8 list) \<times> sim" where
  "sim_ioctl accepts d req arg k =
     (if req = i2cSlave then
        (case arg of
           Val n \<Rightarrow>
             if n < 256 \<and> accepts (of_nat n)
             then ((0, []), k\<lparr>selected := (selected k)(d \<mapsto> of_nat n)\<rparr>)
             else ((EINVAL, []), k)
         | Cmd x reg sz m \<Rightarrow> ((EINVAL, []), k))
      else if req = i2cSMBus then
        (case arg of
           Val n \<Rightarrow> ((EFAULT, []), k)
         | Cmd x reg sz m \<Rightarrow>
             (case selected k d of
                None \<Rightarrow> ((ENXIO, []), k)
              | Some t \<Rightarrow>
                  if x = i2cSMBusWrite
                  then ((0, []),
                        k\<lparr>regs := (regs k)((t, reg) \<mapsto> payload sz m),
                          xfers := xfers k @ [(t, x, reg, payload sz m)]\<rparr>)
                  else
                    (case regs k (t, reg) of
                       None \<Rightarrow> ((ENXIO, []), k\<lparr>xfers := xfers k @ [(t, x, reg, [])]\<rparr>)
                     | Some bs \<Rightarrow> ((0, bs), k\<lparr>xfers := xfers k @ [(t, x, reg, bs)]\<rparr>))))
      else ((ENOTTY, []), k))"

definition sim_kernel :: "string list \<Rightarrow> (u8 \<Rightarrow> bool) \<Rightarrow> sim kernel" where
  "sim_kernel files accepts =
     \<lparr>k_open = sim_open files, k_close = sim_close, k_ioctl = sim_ioctl accepts\<rparr>"

text \<open>The kernel of the round-trip scenarios: one bus, every address accepted.\<close>

definition echo_kernel :: "sim kernel" where
  "echo_kernel = sim_kernel [''/dev/i2c-1''] (\<lambda>a. True)"

text \<open>The i2c-dev driver's own rule: a select of an address above 0x7f is refused.\<close>

definition strict_kernel :: "sim kernel" where
  "strict_kernel = sim_kernel [''/dev/i2c-1''] (\<lambda>a. a \<le> 0x7f)"

definition sim0 :: sim where
  "sim0 = \<lparr>selected = (\<lambda>d. None), regs = (\<lambda>r. None), xfers = [], next_fd = 3\<rparr>"

definition world0 :: "memory \<Rightarrow> sim world" where
  "world0 h = \<lparr>kern = sim0, heap = h, open_files = [], trace = []\<rparr>"

text \<open>The number of ioctl calls in a log: the mock's transaction counter.\<close>

definition ioctls :: "event list \<Rightarrow> nat" where
  "ioctls tr = length (filter (\<lambda>e. case e of EvIoctl d req arg \<Rightarrow> True | _ \<Rightarrow> False) tr)"


subsection \<open>Concrete inputs\<close>

text \<open>
  The handle, buffers and memories the theorems are instantiated at. \<open>heap4\<close> holds
  the payload of the specification's scenario and a second, zeroed array to read into.
\<close>

definition conn3 :: Conn where "conn3 = \<lparr>f = \<lparr>Fd = 3, Name = ''/dev/i2c-1''\<rparr>\<rparr>"

definition buf33 :: slice where "buf33 = \<lparr>sarr = 0, soff = 0, slen = 33, scap = 33\<rparr>"
definition heap33 :: memory where "heap33 = [replicate 33 0xAA]"

definition src4 :: slice where "src4 = \<lparr>sarr = 0, soff = 0, slen = 4, scap = 4\<rparr>"
definition dst4 :: slice where "dst4 = \<lparr>sarr = 1, soff = 0, slen = 4, scap = 4\<rparr>"
definition heap4 :: memory where "heap4 = [[0xDE, 0xAD, 0xBE, 0xEF], [0, 0, 0, 0]]"

definition buf0 :: slice where "buf0 = \<lparr>sarr = 0, soff = 0, slen = 0, scap = 0\<rparr>"

text \<open>The world after the scenario's block write to register 0 of the device at 0x50.\<close>

definition written :: "sim world" where
  "written = snd (WriteBlockData echo_kernel conn3 0x50 0 src4 (world0 heap4))"

section \<open>Facts about the system-call layer\<close>

lemma ioctl_trace:
  "trace (snd (ioctl K d req arg w)) = trace w @ [EvIoctl d req (deref (heap w) arg)]"
  by (simp add: ioctl_def split: prod.splits)

lemma ioctl_heap_UVal: "heap (snd (ioctl K d req (UVal n) w)) = heap w"
  by (simp add: ioctl_def split: prod.splits)

lemma ioctl_heap_UPtr:
  "heap (snd (ioctl K d req (UPtr c) w)) =
     store (heap w) (ptr c) (snd (fst (k_ioctl K d req (deref (heap w) (UPtr c)) (kern w))))"
  by (simp add: ioctl_def split: prod.splits)

lemma ioctl_err:
  "fst (ioctl K d req arg w) =
     (if fst (fst (k_ioctl K d req (deref (heap w) arg) (kern w))) \<noteq> 0
      then Some (Errno (fst (fst (k_ioctl K d req (deref (heap w) arg) (kern w)))))
      else None)"
  by (simp add: ioctl_def split: prod.splits)

lemma ioctl_not_sentinel: "fst (ioctl K d req arg w) \<noteq> Some errSMBusBlockDataMax"
  by (simp add: ioctl_def split: prod.splits)

lemma ioctl_result_not_sentinel: "ioctl K d req arg w \<noteq> (Some errSMBusBlockDataMax, w')"
  using ioctl_not_sentinel [of K d req arg w] by auto

lemma xfer_cases:
  obtains e wr k2 where "k_ioctl K d req arg k = ((e, wr), k2)"
  by (metis prod.collapse)

text \<open>Memory: what a store, a copy and an element assignment leave alone.\<close>

lemma length_poke [simp]: "length (poke wr m) = length m"
  by (simp add: poke_def)

lemma poke_nil [simp]: "poke [] m = m"
  by (simp add: poke_def)

lemma length_store [simp]: "length (store h p wr) = length h"
  by (simp add: store_def Let_def)

lemma store_other: "r \<noteq> fst p \<Longrightarrow> store h p wr ! r = h ! r"
  by (simp add: store_def Let_def)

lemma store_fresh: "store (h @ [m]) (length h, 0) wr = h @ [poke wr m]"
  by (simp add: store_def)

lemma deref_fresh:
  "deref (h @ [m]) (UPtr \<lparr>rw = x, cmd = reg, len = sz, ptr = (length h, 0)\<rparr>) = Cmd x reg sz m"
  by (simp add: deref_def)

lemma length_copy [simp]: "length (snd (copy h dst src)) = length h"
  by (simp add: copy_def Let_def)

lemma copy_other: "r \<noteq> sarr dst \<Longrightarrow> snd (copy h dst src) ! r = h ! r"
  by (simp add: copy_def Let_def)

lemma length_slice_set [simp]: "length (slice_set h s i v) = length h"
  by (simp add: slice_set_def)

lemma slice_set_other: "r \<noteq> sarr s \<Longrightarrow> slice_set h s i v ! r = h ! r"
  by (simp add: slice_set_def)

lemma length_elems: "wf_slice h s \<Longrightarrow> length (elems h s) = slen s"
  by (auto simp: wf_slice_def elems_def)

lemma elems_append: "sarr s < length h \<Longrightarrow> elems (h @ hs) s = elems h s"
  by (simp add: elems_def nth_append)

lemma wf_slice_append: "wf_slice h s \<Longrightarrow> wf_slice (h @ hs) s"
  by (simp add: wf_slice_def nth_append)

text \<open>An ioctl on a command whose payload is the array allocated last.\<close>

lemma ioctl_fresh:
  assumes "k_ioctl K d req (Cmd x reg sz m) (kern w) = ((e, wr), k2)"
  shows "ioctl K d req (UPtr \<lparr>rw = x, cmd = reg, len = sz, ptr = (length h, 0)\<rparr>) (w\<lparr>heap := h @ [m]\<rparr>) =
           (if e \<noteq> 0 then Some (Errno e) else None,
            w\<lparr>kern := k2, heap := h @ [poke wr m], trace := trace w @ [EvIoctl d req (Cmd x reg sz m)]\<rparr>)"
  using assms by (simp add: ioctl_def deref_fresh store_fresh)

text \<open>The address select.\<close>

lemma addr_heap: "heap (snd (addr K c a w)) = heap w"
  by (simp add: addr_def ioctl_heap_UVal)

lemma addr_trace:
  "trace (snd (addr K c a w)) = trace w @ [EvIoctl (Fd (f c)) i2cSlave (Val (unat a))]"
  by (simp add: addr_def ioctl_trace deref_def)

lemma addr_result_not_sentinel: "addr K c a w \<noteq> (Some errSMBusBlockDataMax, w')"
  using ioctl_not_sentinel [of K "Fd (f c)" i2cSlave "UVal (unat a)" w] by (auto simp: addr_def)

lemma addr_cases:
  obtains w1 where "addr K c a w = (None, w1)" | e w1 where "addr K c a w = (Some (Errno e), w1)"
proof (cases "fst (fst (k_ioctl K (Fd (f c)) i2cSlave (Val (unat a)) (kern w))) = 0")
  case True
  then have "fst (addr K c a w) = None" by (simp add: addr_def ioctl_err deref_def)
  then show ?thesis using that(1) [of "snd (addr K c a w)"] by (metis prod.collapse)
next
  case False
  then have "fst (addr K c a w) = Some (Errno (fst (fst (k_ioctl K (Fd (f c)) i2cSlave (Val (unat a)) (kern w)))))"
    by (simp add: addr_def ioctl_err deref_def)
  then show ?thesis using that(2) by (metis prod.collapse)
qed

section \<open>The byte and word operations, unfolded\<close>









section \<open>The block operations, unfolded\<close>

lemma unat_len: "n \<le> 32 \<Longrightarrow> unat (of_nat n :: u8) = n"
  by (simp add: unat_of_nat take_bit_nat_eq_self)

lemma wire_block:
  assumes "length xs = n" and "n \<le> 32"
  shows "wire (of_nat n # xs @ zs) = of_nat n # xs"
  using assms by (simp add: wire_def unat_len)

lemma poke_block:
  assumes "length xs = n" and "n \<le> 32"
  shows "take n (drop (Suc 0) (poke (v # xs) (v' # replicate 33 0))) = xs"
  using assms by (simp add: poke_def)

lemma area34:
  "slice_set (snd (make_bytes h n 34)) (fst (make_bytes h n 34)) 0 v = h @ [v # replicate 33 0]"
  by (simp add: make_bytes_def slice_set_def numeral_eq_Suc)

lemma addr_of_make: "addr_of (fst (make_bytes h n k)) 0 = (length h, 0)"
  by (simp add: addr_of_def make_bytes_def)

text \<open>The array that \<open>WriteBlockData\<close> builds for the kernel.\<close>

lemma write_block_area:
  assumes "wf_slice h buf"
  shows "snd (copy (slice_set (snd (make_bytes h (1 + slen buf) 34))
                      (fst (make_bytes h (1 + slen buf) 34)) 0 v)
               (reslice (fst (make_bytes h (1 + slen buf) 34)) 1
                  (slen (fst (make_bytes h (1 + slen buf) 34)))) buf)
         = h @ [v # elems h buf @ replicate (33 - slen buf) 0]"
proof -
  have n: "length (elems h buf) = slen buf" using assms by (rule length_elems)
  have lt: "sarr buf < length h" using assms by (simp add: wf_slice_def)
  have r: "(replicate 34 (0::u8))[0 := v] = v # replicate 33 0"
    by (simp add: numeral_eq_Suc)
  show ?thesis
    unfolding make_bytes_def slice_set_def reslice_def copy_def Let_def
    by (simp add: nth_append elems_append [OF lt] r n [symmetric])
qed

lemma write_block_area_empty:
  assumes "slen buf = 0"
  shows "snd (copy (slice_set (snd (make_bytes h (1 + slen buf) 34))
                      (fst (make_bytes h (1 + slen buf) 34)) 0 v)
               (reslice (fst (make_bytes h (1 + slen buf) 34)) 1
                  (slen (fst (make_bytes h (1 + slen buf) 34)))) buf)
         = h @ [v # replicate 33 0]"
  using assms
  by (simp add: make_bytes_def slice_set_def reslice_def copy_def Let_def numeral_eq_Suc)

lemma WriteBlockData_ok:
  assumes wf: "wf_slice (heap w) buf" and le: "slen buf \<le> 32"
    and sel: "addr K c a w = (None, w1)"
  shows "WriteBlockData K c a reg buf w =
           ioctl K (Fd (f c)) i2cSMBus
             (UPtr \<lparr>rw = i2cSMBusWrite, cmd = reg, len = i2cSMBusI2CBlockData,
                    ptr = (length (heap w), 0)\<rparr>)
             (w1\<lparr>heap := heap w @ [of_nat (slen buf) # elems (heap w) buf @ replicate (33 - slen buf) 0]\<rparr>)"
proof -
  have h1: "heap w1 = heap w" using addr_heap [of K c a w] sel by simp
  have c34: "unat (i2cSMBusBlockMax + 2) = 34" by (simp add: i2cSMBusBlockMax_def)
  show ?thesis
    using le write_block_area [OF wf, of "of_nat (slen buf)"]
    by (simp add: WriteBlockData_def sel h1 c34 addr_of_make i2cSMBusBlockMax_def case_prod_beta)
qed

lemma ReadBlockData_ok:
  assumes wf: "wf_slice (heap w) buf" and le: "slen buf \<le> 32"
    and sel: "addr K c a w = (None, w1)"
    and xfer: "k_ioctl K (Fd (f c)) i2cSMBus
                 (Cmd i2cSMBusRead reg i2cSMBusI2CBlockData (of_nat (slen buf) # replicate 33 0))
                 (kern w1) = ((e, wr), k2)"
  shows "ReadBlockData K c a reg buf w =
           (if e \<noteq> 0
            then (Some (Errno e),
                  w1\<lparr>kern := k2,
                     heap := heap w @ [poke wr (of_nat (slen buf) # replicate 33 0)],
                     trace := trace w1 @ [EvIoctl (Fd (f c)) i2cSMBus
                        (Cmd i2cSMBusRead reg i2cSMBusI2CBlockData (of_nat (slen buf) # replicate 33 0))]\<rparr>)
            else (None,
                  w1\<lparr>kern := k2,
                     heap := (heap w @ [poke wr (of_nat (slen buf) # replicate 33 0)])
                        [sarr buf := take (soff buf) (heap w ! sarr buf) @
                           take (slen buf) (drop 1 (poke wr (of_nat (slen buf) # replicate 33 0))) @
                           drop (soff buf + slen buf) (heap w ! sarr buf)],
                     trace := trace w1 @ [EvIoctl (Fd (f c)) i2cSMBus
                        (Cmd i2cSMBusRead reg i2cSMBusI2CBlockData (of_nat (slen buf) # replicate 33 0))]\<rparr>))"
proof -
  have h1: "heap w1 = heap w" using addr_heap [of K c a w] sel by simp
  have c34: "unat (i2cSMBusBlockMax + 2) = 34" by (simp add: i2cSMBusBlockMax_def)
  have lt: "sarr buf < length (heap w)" using wf by (simp add: wf_slice_def)
  have r34: "\<And>v. (replicate 34 (0::u8))[0 := v] = v # replicate 33 0"
    by (simp add: numeral_eq_Suc)
  show ?thesis
    using le
    apply (simp add: ReadBlockData_def sel h1 c34 i2cSMBusBlockMax_def make_bytes_def slice_set_def
         addr_of_def ioctl_def deref_def store_def r34 xfer)
    apply (simp add: copy_def reslice_def elems_def nth_append lt Let_def)
    done
qed

lemma ReadBlockData_not_sentinel:
  "slen buf \<le> 32 \<Longrightarrow> fst (ReadBlockData K c a reg buf w) \<noteq> Some errSMBusBlockDataMax"
  by (auto simp: ReadBlockData_def i2cSMBusBlockMax_def addr_result_not_sentinel
        ioctl_result_not_sentinel split: prod.splits option.splits)

lemma WriteBlockData_not_sentinel:
  "slen buf \<le> 32 \<Longrightarrow> fst (WriteBlockData K c a reg buf w) \<noteq> Some errSMBusBlockDataMax"
  by (auto simp: WriteBlockData_def i2cSMBusBlockMax_def addr_result_not_sentinel
        ioctl_not_sentinel split: prod.splits option.splits)

lemma ReadBlockData_trace:
  assumes le: "slen buf \<le> 32"
  shows "trace (snd (ReadBlockData K c a reg buf w)) =
           trace w @ EvIoctl (Fd (f c)) i2cSlave (Val (unat a)) #
             (if fst (addr K c a w) = None
              then [EvIoctl (Fd (f c)) i2cSMBus
                      (Cmd i2cSMBusRead reg i2cSMBusI2CBlockData (of_nat (slen buf) # replicate 33 0))]
              else [])"
proof (rule addr_cases [of K c a w])
  fix e w1 assume sel: "addr K c a w = (Some (Errno e), w1)"
  then show ?thesis
    using le addr_trace [of K c a w] by (simp add: ReadBlockData_def i2cSMBusBlockMax_def)
next
  fix w1 assume sel: "addr K c a w = (None, w1)"
  have h1: "heap w1 = heap w" using addr_heap [of K c a w] sel by simp
  have t1: "trace w1 = trace w @ [EvIoctl (Fd (f c)) i2cSlave (Val (unat a))]"
    using addr_trace [of K c a w] sel by simp
  have c34: "unat (i2cSMBusBlockMax + 2) = 34" by (simp add: i2cSMBusBlockMax_def)
  let ?w = "w1\<lparr>heap := heap w @ [of_nat (slen buf) # replicate 33 0]\<rparr>"
  let ?u = "UPtr \<lparr>rw = i2cSMBusRead, cmd = reg, len = i2cSMBusI2CBlockData, ptr = (length (heap w), 0)\<rparr>"
  have tr: "trace (snd (ioctl K (Fd (f c)) i2cSMBus ?u ?w)) =
      trace w1 @ [EvIoctl (Fd (f c)) i2cSMBus (Cmd i2cSMBusRead reg i2cSMBusI2CBlockData (of_nat (slen buf) # replicate 33 0))]"
    by (simp add: ioctl_trace deref_fresh)
  have "trace (snd (ReadBlockData K c a reg buf w)) = trace (snd (ioctl K (Fd (f c)) i2cSMBus ?u ?w))"
    using le
    by (simp add: ReadBlockData_def i2cSMBusBlockMax_def sel h1 c34 case_prod_beta area34 addr_of_make
          split: option.splits)
  then show ?thesis by (simp add: tr t1 sel)
qed

lemma WriteBlockData_trace_area:
  assumes le: "slen buf \<le> 32"
    and area: "snd (copy (slice_set (snd (make_bytes (heap w) (1 + slen buf) 34))
                      (fst (make_bytes (heap w) (1 + slen buf) 34)) 0 (of_nat (slen buf)))
               (reslice (fst (make_bytes (heap w) (1 + slen buf) 34)) 1
                  (slen (fst (make_bytes (heap w) (1 + slen buf) 34)))) buf) = heap w @ [m]"
  shows "trace (snd (WriteBlockData K c a reg buf w)) =
           trace w @ EvIoctl (Fd (f c)) i2cSlave (Val (unat a)) #
             (if fst (addr K c a w) = None
              then [EvIoctl (Fd (f c)) i2cSMBus (Cmd i2cSMBusWrite reg i2cSMBusI2CBlockData m)]
              else [])"
proof (rule addr_cases [of K c a w])
  fix e w1 assume sel: "addr K c a w = (Some (Errno e), w1)"
  then show ?thesis
    using le addr_trace [of K c a w] by (simp add: WriteBlockData_def i2cSMBusBlockMax_def)
next
  fix w1 assume sel: "addr K c a w = (None, w1)"
  have h1: "heap w1 = heap w" using addr_heap [of K c a w] sel by simp
  have t1: "trace w1 = trace w @ [EvIoctl (Fd (f c)) i2cSlave (Val (unat a))]"
    using addr_trace [of K c a w] sel by simp
  have c34: "unat (i2cSMBusBlockMax + 2) = 34" by (simp add: i2cSMBusBlockMax_def)
  show ?thesis
    using le area
    by (simp add: WriteBlockData_def i2cSMBusBlockMax_def sel h1 c34 case_prod_beta addr_of_make
          ioctl_trace deref_fresh t1)
qed

lemma WriteBlockData_trace:
  assumes wf: "wf_slice (heap w) buf" and le: "slen buf \<le> 32"
  shows "trace (snd (WriteBlockData K c a reg buf w)) =
           trace w @ EvIoctl (Fd (f c)) i2cSlave (Val (unat a)) #
             (if fst (addr K c a w) = None
              then [EvIoctl (Fd (f c)) i2cSMBus
                      (Cmd i2cSMBusWrite reg i2cSMBusI2CBlockData
                         (of_nat (slen buf) # elems (heap w) buf @ replicate (33 - slen buf) 0))]
              else [])"
  by (rule WriteBlockData_trace_area [OF le write_block_area [OF wf]])

section \<open>The open calls, unfolded\<close>

lemma OpenFile_failed:
  assumes "k_open K (dev_path bus) O_RDWR perm0600 (kern w) = (Inl e, k1)"
  shows "OpenFile K bus w =
           (Inl (PathError ''open'' (dev_path bus) e),
            w\<lparr>kern := k1, trace := trace w @ [EvOpen (dev_path bus)]\<rparr>)"
  using assms by (simp add: OpenFile_def os_OpenFile_def)

lemma Open_failed:
  assumes "k_open K (dev_path bus) O_RDWR perm0600 (kern w) = (Inl e, k1)"
  shows "Open K bus a w =
           (Inl (PathError ''open'' (dev_path bus) e),
            w\<lparr>kern := k1, trace := trace w @ [EvOpen (dev_path bus)]\<rparr>)"
  using assms by (simp add: Open_def os_OpenFile_def)

lemma OpenFile_opened:
  assumes "k_open K (dev_path bus) O_RDWR perm0600 (kern w) = (Inr d, k1)"
  shows "OpenFile K bus w =
           (Inr \<lparr>f = \<lparr>Fd = d, Name = dev_path bus\<rparr>\<rparr>,
            w\<lparr>kern := k1, open_files := d # open_files w,
              trace := trace w @ [EvOpen (dev_path bus)]\<rparr>)"
  using assms by (simp add: OpenFile_def os_OpenFile_def)

lemma Open_opened:
  assumes "k_open K (dev_path bus) O_RDWR perm0600 (kern w) = (Inr d, k1)"
    and "k_ioctl K d i2cSlave (Val (unat a)) k1 = ((e, wr), k2)"
  shows "Open K bus a w =
           (if e \<noteq> 0 then Inl (Errno e) else Inr \<lparr>f = \<lparr>Fd = d, Name = dev_path bus\<rparr>\<rparr>,
            w\<lparr>kern := k2, open_files := d # open_files w,
              trace := trace w @ [EvOpen (dev_path bus), EvIoctl d i2cSlave (Val (unat a))]\<rparr>)"
  using assms by (simp add: Open_def os_OpenFile_def ioctl_def deref_def)

section \<open>The simulated kernel\<close>

lemma sim_select:
  "accepts a \<Longrightarrow>
   addr (sim_kernel files accepts) c a w =
     (None, w\<lparr>kern := (kern w)\<lparr>selected := (selected (kern w))(Fd (f c) \<mapsto> a)\<rparr>,
              trace := trace w @ [EvIoctl (Fd (f c)) i2cSlave (Val (unat a))]\<rparr>)"
  using unsigned_less [of a, where 'a = nat]
  by (simp add: addr_def ioctl_def deref_def sim_kernel_def sim_ioctl_def)











section \<open>The block length ceiling\<close>

text \<open>
  Claim C1. A buffer longer than 32 bytes makes \<open>ReadBlockData\<close> and
  \<open>WriteBlockData\<close> return \<open>errSMBusBlockDataMax\<close> and leave the world as it was:
  kernel state, memory, open files and the system-call log are unchanged, so neither
  an address select nor a transaction was issued and the count of ioctl calls in the
  log does not move.
\<close>

theorem block_too_long_no_io:
  "slen buf > 32 \<Longrightarrow>
     ReadBlockData K c a reg buf w = (Some errSMBusBlockDataMax, w) \<and>
     WriteBlockData K c a reg buf w = (Some errSMBusBlockDataMax, w) \<and>
     ioctls (trace (snd (ReadBlockData K c a reg buf w))) = ioctls (trace w) \<and>
     ioctls (trace (snd (WriteBlockData K c a reg buf w))) = ioctls (trace w)"
  by (simp add: ReadBlockData_def WriteBlockData_def i2cSMBusBlockMax_def)

text \<open>The specification's scenario: a 33-byte block on a fresh simulated kernel.\<close>

theorem block_too_long_no_io_witness:
  "slen buf33 > 32 \<and>
   ReadBlockData echo_kernel conn3 0x50 0 buf33 (world0 heap33) =
     (Some errSMBusBlockDataMax, world0 heap33) \<and>
   WriteBlockData echo_kernel conn3 0x50 0 buf33 (world0 heap33) =
     (Some errSMBusBlockDataMax, world0 heap33) \<and>
   ioctls (trace (snd (ReadBlockData echo_kernel conn3 0x50 0 buf33 (world0 heap33)))) = 0 \<and>
   ioctls (trace (snd (WriteBlockData echo_kernel conn3 0x50 0 buf33 (world0 heap33)))) = 0 \<and>
   xfers (kern (snd (ReadBlockData echo_kernel conn3 0x50 0 buf33 (world0 heap33)))) = [] \<and>
   xfers (kern (snd (WriteBlockData echo_kernel conn3 0x50 0 buf33 (world0 heap33)))) = []"
  using block_too_long_no_io [of buf33 echo_kernel conn3 "0x50" 0 "world0 heap33"]
  by (simp add: buf33_def world0_def sim0_def ioctls_def)

section \<open>The wire buffer of a block write\<close>

text \<open>
  Claim C2. For a buffer of 1 to 32 bytes, the only transaction \<open>WriteBlockData\<close>
  passes to the kernel is a write (\<open>i2cSMBusWrite\<close>) of size class
  \<open>i2cSMBusI2CBlockData\<close> on register \<open>reg\<close>, issued right after the address select
  once that select has succeeded. The array its \<open>ptr\<close> points at starts with the wire
  buffer \<open>data\<close>: one length byte \<open>byte(len(buf))\<close> followed by the bytes of \<open>buf\<close>,
  that is \<open>len(buf) + 1\<close> bytes (the rest is the zeroed spare capacity up to 34). The
  length byte announces exactly the payload, so the block the kernel cuts from the
  array (\<open>wire\<close>) is that buffer.
\<close>

theorem WriteBlockData_wire_buffer:
  assumes wf: "wf_slice (heap w) buf" and ge: "1 \<le> slen buf" and le: "slen buf \<le> 32"
  shows "trace (snd (WriteBlockData K c a reg buf w)) =
           trace w @ EvIoctl (Fd (f c)) i2cSlave (Val (unat a)) #
             (if fst (addr K c a w) = None
              then [EvIoctl (Fd (f c)) i2cSMBus
                      (Cmd i2cSMBusWrite reg i2cSMBusI2CBlockData
                         ((of_nat (slen buf) # elems (heap w) buf) @ replicate (33 - slen buf) 0))]
              else []) \<and>
         length (of_nat (slen buf) # elems (heap w) buf) = slen buf + 1 \<and>
         wire ((of_nat (slen buf) # elems (heap w) buf) @ replicate (33 - slen buf) 0) =
           of_nat (slen buf) # elems (heap w) buf"
proof -
  have n: "length (elems (heap w) buf) = slen buf" using wf by (rule length_elems)
  show ?thesis
    using WriteBlockData_trace [OF wf le, of K c a reg] wire_block [OF n le]
    by (simp add: n)
qed

text \<open>
  The specification's scenario: writing DE AD BE EF to register 0 of the device at
  0x50 puts the five bytes 04 DE AD BE EF on the wire.
\<close>

theorem WriteBlockData_wire_buffer_witness:
  "wf_slice (heap (world0 heap4)) src4 \<and> 1 \<le> slen src4 \<and> slen src4 \<le> 32 \<and>
   fst (addr echo_kernel conn3 0x50 (world0 heap4)) = None \<and>
   trace written =
     [EvIoctl 3 i2cSlave (Val 0x50),
      EvIoctl 3 i2cSMBus
        (Cmd i2cSMBusWrite 0 i2cSMBusI2CBlockData ([4, 0xDE, 0xAD, 0xBE, 0xEF] @ replicate 29 0))] \<and>
   wire ([4, 0xDE, 0xAD, 0xBE, 0xEF] @ replicate 29 0) = [4, 0xDE, 0xAD, 0xBE, 0xEF] \<and>
   xfers (kern written) = [(0x50, i2cSMBusWrite, 0, [4, 0xDE, 0xAD, 0xBE, 0xEF])]"
proof -
  have wf: "wf_slice (heap (world0 heap4)) src4" by code_simp
  have ge: "1 \<le> slen src4" by code_simp
  have le: "slen src4 \<le> 32" by code_simp
  have sel: "fst (addr echo_kernel conn3 0x50 (world0 heap4)) = None" by code_simp
  have n4: "slen src4 = 4" by code_simp
  have pre: "elems (heap (world0 heap4)) src4 = [0xDE, 0xAD, 0xBE, 0xEF]"
    by code_simp
  have log: "xfers (kern written) = [(0x50, i2cSMBusWrite, 0, [4, 0xDE, 0xAD, 0xBE, 0xEF])]"
    by code_simp
  have hd: "trace (world0 heap4) = [] \<and> Fd (f conn3) = 3 \<and> unat (0x50 :: u8) = 0x50" by code_simp
  show ?thesis
    using WriteBlockData_wire_buffer [OF wf ge le, of echo_kernel conn3 "0x50" 0] wf ge le sel log
    by (simp add: n4 pre hd written_def)
qed

section \<open>What a block read copies\<close>

text \<open>
  Claim C3. For a buffer of 1 to 32 bytes, when \<open>ReadBlockData\<close> returns nil: the
  wire buffer \<open>data\<close> (the array allocated by the call, at index \<open>length (heap w)\<close>)
  holds what the kernel wrote over \<open>[len(buf), 0, ..., 0]\<close>; the elements of \<open>buf\<close>
  are then exactly \<open>len(buf)\<close> bytes, those at positions 1 to \<open>len(buf)\<close> of that
  wire buffer, so the length byte at position 0 is not copied; and the array \<open>buf\<close>
  lies in is changed nowhere else.
\<close>

theorem ReadBlockData_fills_buf:
  assumes wf: "wf_slice (heap w) buf" and ge: "1 \<le> slen buf" and le: "slen buf \<le> 32"
    and ok: "ReadBlockData K c a reg buf w = (None, w')"
  shows "heap w' ! length (heap w) =
           poke (snd (fst (k_ioctl K (Fd (f c)) i2cSMBus
                             (Cmd i2cSMBusRead reg i2cSMBusI2CBlockData
                                (of_nat (slen buf) # replicate 33 0))
                             (kern (snd (addr K c a w))))))
                (of_nat (slen buf) # replicate 33 0) \<and>
         elems (heap w') buf = take (slen buf) (drop 1 (heap w' ! length (heap w))) \<and>
         length (elems (heap w') buf) = slen buf \<and>
         (\<forall>i < slen buf. elems (heap w') buf ! i = (heap w' ! length (heap w)) ! (i + 1)) \<and>
         heap w' ! sarr buf =
           take (soff buf) (heap w ! sarr buf) @
           take (slen buf) (drop 1 (heap w' ! length (heap w))) @
           drop (soff buf + slen buf) (heap w ! sarr buf)"
proof -
  obtain w1 where sel: "addr K c a w = (None, w1)"
  proof (rule addr_cases [of K c a w])
    fix w1 assume "addr K c a w = (None, w1)"
    then show thesis by (rule that)
  next
    fix e w1 assume "addr K c a w = (Some (Errno e), w1)"
    then have "fst (ReadBlockData K c a reg buf w) \<noteq> None"
      using le by (simp add: ReadBlockData_def i2cSMBusBlockMax_def)
    then show thesis using ok by simp
  qed
  obtain e wr k2 where xfer:
    "k_ioctl K (Fd (f c)) i2cSMBus
       (Cmd i2cSMBusRead reg i2cSMBusI2CBlockData (of_nat (slen buf) # replicate 33 0))
       (kern w1) = ((e, wr), k2)"
    by (rule xfer_cases)
  let ?d = "poke wr (of_nat (slen buf) # replicate 33 0)"
  let ?a = "heap w ! sarr buf"
  let ?xs = "take (slen buf) (drop 1 ?d)"
  have lt: "sarr buf < length (heap w)" using wf by (simp add: wf_slice_def)
  have e0: "e = 0" using ReadBlockData_ok [OF wf le sel xfer] ok by (simp split: if_splits)
  have hp: "heap w' = (heap w @ [?d])[sarr buf := take (soff buf) ?a @ ?xs @ drop (soff buf + slen buf) ?a]"
    using ReadBlockData_ok [OF wf le sel xfer] ok e0 by auto
  have d: "heap w' ! length (heap w) = ?d"
    using lt by (simp add: hp)
  have lx: "length ?xs = slen buf" using le by simp
  have b: "heap w' ! sarr buf = take (soff buf) ?a @ ?xs @ drop (soff buf + slen buf) ?a"
    using lt by (simp add: hp nth_append)
  have el: "elems (heap w') buf = ?xs"
    using wf lx by (simp add: elems_def b wf_slice_def)
  have nth: "\<forall>i < slen buf. ?xs ! i = ?d ! (i + 1)"
    using le by simp
  show ?thesis
    using d el lx nth b sel xfer by simp
qed

text \<open>
  Reading back, into the second array, the block written in the scenario: the kernel
  answers 04 DE AD BE EF and the buffer receives DE AD BE EF.
\<close>

theorem ReadBlockData_fills_buf_witness:
  "wf_slice (heap written) dst4 \<and> 1 \<le> slen dst4 \<and> slen dst4 \<le> 32 \<and>
   fst (ReadBlockData echo_kernel conn3 0x50 0 dst4 written) = None \<and>
   heap (snd (ReadBlockData echo_kernel conn3 0x50 0 dst4 written)) ! length (heap written) =
     [4, 0xDE, 0xAD, 0xBE, 0xEF] @ replicate 29 0 \<and>
   elems (heap (snd (ReadBlockData echo_kernel conn3 0x50 0 dst4 written))) dst4 =
     take (slen dst4)
       (drop 1 (heap (snd (ReadBlockData echo_kernel conn3 0x50 0 dst4 written)) ! length (heap written))) \<and>
   elems (heap (snd (ReadBlockData echo_kernel conn3 0x50 0 dst4 written))) dst4 =
     [0xDE, 0xAD, 0xBE, 0xEF]"
proof -
  let ?r = "ReadBlockData echo_kernel conn3 0x50 0 dst4 written"
  have wf: "wf_slice (heap written) dst4" by code_simp
  have ge: "1 \<le> slen dst4" by code_simp
  have le: "slen dst4 \<le> 32" by code_simp
  have nil: "fst ?r = None" by code_simp
  have ok: "?r = (None, snd ?r)" using nil by (simp add: prod_eq_iff)
  have d: "heap (snd ?r) ! length (heap written) = [4, 0xDE, 0xAD, 0xBE, 0xEF] @ replicate 29 0"
    by code_simp
  have el: "elems (heap (snd ?r)) dst4 = [0xDE, 0xAD, 0xBE, 0xEF]" by code_simp
  show ?thesis
    using ReadBlockData_fills_buf [OF wf ge le ok] wf ge le nil d el by simp
qed

section \<open>The round trip of a block\<close>

text \<open>
  Claim C4. On the simulated kernel that keeps the block written to a (device address,
  register) and replays it on a read, for every payload \<open>p\<close> of 1 to 32 bytes and every
  buffer \<open>buf\<close> of the same length: \<open>WriteBlockData\<close> of \<open>p\<close> followed by
  \<open>ReadBlockData\<close> into \<open>buf\<close>, at the same address and register, both return nil and
  leave in \<open>buf\<close> the bytes \<open>p\<close> held when it was written.
\<close>

theorem block_round_trip:
  assumes wfp: "wf_slice (heap w) p" and wfb: "wf_slice (heap w) buf"
    and ge: "1 \<le> slen p" and le: "slen p \<le> 32" and same: "slen buf = slen p"
    and wr: "WriteBlockData echo_kernel c a reg p w = (e1, w1)"
    and rd: "ReadBlockData echo_kernel c a reg buf w1 = (e2, w2)"
  shows "e1 = None \<and> e2 = None \<and> elems (heap w2) buf = elems (heap w) p"
proof -
  let ?n = "slen p"
  let ?ps = "elems (heap w) p"
  let ?m = "of_nat ?n # ?ps @ replicate (33 - ?n) 0"
  let ?sel = "EvIoctl (Fd (f c)) i2cSlave (Val (unat a))"
  have n: "length ?ps = ?n" using wfp by (rule length_elems)
  let ?wa = "w\<lparr>kern := (kern w)\<lparr>selected := (selected (kern w))(Fd (f c) \<mapsto> a)\<rparr>,
               trace := trace w @ [?sel]\<rparr>"
  have sel1: "addr echo_kernel c a w = (None, ?wa)"
    by (simp add: echo_kernel_def sim_select)
  let ?k1 = "(kern w)\<lparr>selected := (selected (kern w))(Fd (f c) \<mapsto> a),
                regs := (regs (kern w))((a, reg) \<mapsto> of_nat ?n # ?ps),
                xfers := xfers (kern w) @ [(a, i2cSMBusWrite, reg, of_nat ?n # ?ps)]\<rparr>"
  have x1: "k_ioctl echo_kernel (Fd (f c)) i2cSMBus (Cmd i2cSMBusWrite reg i2cSMBusI2CBlockData ?m) (kern ?wa)
              = ((0, []), ?k1)"
    by (simp add: echo_kernel_def sim_kernel_def sim_ioctl_def i2cSMBus_def i2cSlave_def
          payload_def wire_block [OF n le])
  have w1: "e1 = None \<and> heap w1 = heap w @ [?m] \<and> kern w1 = ?k1"
    using wr by (auto simp: WriteBlockData_ok [OF wfp le sel1] ioctl_fresh [OF x1])
  have wfb1: "wf_slice (heap w1) buf" using wfb w1 by (simp add: wf_slice_append)
  have le': "slen buf \<le> 32" using le same by simp
  let ?wb = "w1\<lparr>kern := (kern w1)\<lparr>selected := (selected (kern w1))(Fd (f c) \<mapsto> a)\<rparr>,
               trace := trace w1 @ [?sel]\<rparr>"
  have sel2: "addr echo_kernel c a w1 = (None, ?wb)"
    by (simp add: echo_kernel_def sim_select)
  obtain k2 where x2:
    "k_ioctl echo_kernel (Fd (f c)) i2cSMBus
       (Cmd i2cSMBusRead reg i2cSMBusI2CBlockData (of_nat (slen buf) # replicate 33 0)) (kern ?wb)
       = ((0, of_nat ?n # ?ps), k2)"
    using w1
    by (simp add: echo_kernel_def sim_kernel_def sim_ioctl_def i2cSMBus_def i2cSlave_def
          i2cSMBusRead_def i2cSMBusWrite_def)
  have lt: "sarr buf < length (heap w)" using wfb by (simp add: wf_slice_def)
  have r: "e2 = None \<and>
           heap w2 = (heap w1 @ [poke (of_nat ?n # ?ps) (of_nat (slen buf) # replicate 33 0)])
             [sarr buf := take (soff buf) (heap w1 ! sarr buf) @ ?ps @
                drop (soff buf + slen buf) (heap w1 ! sarr buf)]"
    using rd by (auto simp: ReadBlockData_ok [OF wfb1 le' sel2 x2] same poke_block [OF n le])
  have "elems (heap w2) buf = ?ps"
    using wfb1 n lt w1 by (simp add: r elems_def wf_slice_def same nth_append)
  then show ?thesis using w1 r by simp
qed

text \<open>
  The specification's scenario: DE AD BE EF written to register 0 of the device at 0x50
  and read back into a buffer of four bytes.
\<close>

theorem block_round_trip_witness:
  "wf_slice (heap (world0 heap4)) src4 \<and> wf_slice (heap (world0 heap4)) dst4 \<and>
   1 \<le> slen src4 \<and> slen src4 \<le> 32 \<and> slen dst4 = slen src4 \<and>
   fst (WriteBlockData echo_kernel conn3 0x50 0 src4 (world0 heap4)) = None \<and>
   fst (ReadBlockData echo_kernel conn3 0x50 0 dst4 written) = None \<and>
   elems (heap (snd (ReadBlockData echo_kernel conn3 0x50 0 dst4 written))) dst4 =
     elems (heap (world0 heap4)) src4 \<and>
   elems (heap (world0 heap4)) src4 = [0xDE, 0xAD, 0xBE, 0xEF]"
proof -
  have wfp: "wf_slice (heap (world0 heap4)) src4" by code_simp
  have wfb: "wf_slice (heap (world0 heap4)) dst4" by code_simp
  have ge: "1 \<le> slen src4" by code_simp
  have le: "slen src4 \<le> 32" by code_simp
  have same: "slen dst4 = slen src4" by code_simp
  have wr: "WriteBlockData echo_kernel conn3 0x50 0 src4 (world0 heap4) =
              (fst (WriteBlockData echo_kernel conn3 0x50 0 src4 (world0 heap4)), written)"
    by (simp add: written_def)
  have rd: "ReadBlockData echo_kernel conn3 0x50 0 dst4 written =
              (fst (ReadBlockData echo_kernel conn3 0x50 0 dst4 written),
               snd (ReadBlockData echo_kernel conn3 0x50 0 dst4 written))"
    by simp
  have ps: "elems (heap (world0 heap4)) src4 = [0xDE, 0xAD, 0xBE, 0xEF]" by code_simp
  show ?thesis
    using block_round_trip [OF wfp wfb ge le same wr rd] wfp wfb ge le same ps by simp
qed

section \<open>Select, then one transaction\<close>




section \<open>A failed block read\<close>

text \<open>
  Claim C6. When the address select succeeds and the transaction ioctl of a block read
  fails with errno \<open>e\<close>, \<open>ReadBlockData\<close> returns that error, every array that existed
  before the call is unchanged, and so the elements of \<open>buf\<close> are those it had: no
  byte of the wire buffer reaches the caller.
\<close>

theorem ReadBlockData_failed_transfer:
  assumes wf: "wf_slice (heap w) buf" and le: "slen buf \<le> 32"
    and sel: "addr K c a w = (None, w1)"
    and xfer: "k_ioctl K (Fd (f c)) i2cSMBus
                 (Cmd i2cSMBusRead reg i2cSMBusI2CBlockData (of_nat (slen buf) # replicate 33 0))
                 (kern w1) = ((e, wr), k2)"
    and fail: "e \<noteq> 0"
  shows "fst (ReadBlockData K c a reg buf w) = Some (Errno e) \<and>
         (\<forall>r < length (heap w). heap (snd (ReadBlockData K c a reg buf w)) ! r = heap w ! r) \<and>
         elems (heap (snd (ReadBlockData K c a reg buf w))) buf = elems (heap w) buf"
proof -
  have lt: "sarr buf < length (heap w)" using wf by (simp add: wf_slice_def)
  show ?thesis
    using fail lt by (simp add: ReadBlockData_ok [OF wf le sel xfer] nth_append elems_def)
qed

text \<open>
  A block read of a register that was never written: the simulated device does not
  answer (ENXIO) and the four bytes of the buffer stay as they were.
\<close>

theorem ReadBlockData_failed_transfer_witness:
  "wf_slice (heap (world0 heap4)) src4 \<and> slen src4 \<le> 32 \<and>
   fst (addr echo_kernel conn3 0x50 (world0 heap4)) = None \<and>
   fst (fst (k_ioctl echo_kernel (Fd (f conn3)) i2cSMBus
               (Cmd i2cSMBusRead 0 i2cSMBusI2CBlockData (of_nat (slen src4) # replicate 33 0))
               (kern (snd (addr echo_kernel conn3 0x50 (world0 heap4)))))) = ENXIO \<and>
   ENXIO \<noteq> 0 \<and>
   fst (ReadBlockData echo_kernel conn3 0x50 0 src4 (world0 heap4)) = Some (Errno ENXIO) \<and>
   elems (heap (snd (ReadBlockData echo_kernel conn3 0x50 0 src4 (world0 heap4)))) src4 =
     elems (heap (world0 heap4)) src4 \<and>
   elems (heap (world0 heap4)) src4 = [0xDE, 0xAD, 0xBE, 0xEF]"
proof -
  let ?x = "k_ioctl echo_kernel (Fd (f conn3)) i2cSMBus
              (Cmd i2cSMBusRead 0 i2cSMBusI2CBlockData (of_nat (slen src4) # replicate 33 0))
              (kern (snd (addr echo_kernel conn3 0x50 (world0 heap4))))"
  have wf: "wf_slice (heap (world0 heap4)) src4" by code_simp
  have le: "slen src4 \<le> 32" by code_simp
  have nil: "fst (addr echo_kernel conn3 0x50 (world0 heap4)) = None" by code_simp
  have sel: "addr echo_kernel conn3 0x50 (world0 heap4) =
               (None, snd (addr echo_kernel conn3 0x50 (world0 heap4)))"
    using nil by (simp add: prod_eq_iff)
  have e: "fst (fst ?x) = ENXIO" by code_simp
  have xfer: "?x = ((ENXIO, snd (fst ?x)), snd ?x)" using e by (simp add: prod_eq_iff)
  have fail: "ENXIO \<noteq> 0" by code_simp
  have ps: "elems (heap (world0 heap4)) src4 = [0xDE, 0xAD, 0xBE, 0xEF]" by code_simp
  show ?thesis
    using ReadBlockData_failed_transfer [OF wf le sel xfer fail] wf le nil e fail ps by simp
qed

section \<open>The empty block\<close>

text \<open>
  Claim C8. With an empty buffer neither block operation returns
  \<open>errSMBusBlockDataMax\<close>: the length check passes, the address select is issued, and
  once it succeeds one transaction follows whose payload array is all zero, so that
  the wire buffer is the single length byte 0x00.
\<close>

theorem empty_block_is_transferred:
  assumes empty: "slen buf = 0"
  shows "fst (ReadBlockData K c a reg buf w) \<noteq> Some errSMBusBlockDataMax \<and>
         fst (WriteBlockData K c a reg buf w) \<noteq> Some errSMBusBlockDataMax \<and>
         trace (snd (ReadBlockData K c a reg buf w)) =
           trace w @ EvIoctl (Fd (f c)) i2cSlave (Val (unat a)) #
             (if fst (addr K c a w) = None
              then [EvIoctl (Fd (f c)) i2cSMBus
                      (Cmd i2cSMBusRead reg i2cSMBusI2CBlockData (0 # replicate 33 0))]
              else []) \<and>
         trace (snd (WriteBlockData K c a reg buf w)) =
           trace w @ EvIoctl (Fd (f c)) i2cSlave (Val (unat a)) #
             (if fst (addr K c a w) = None
              then [EvIoctl (Fd (f c)) i2cSMBus
                      (Cmd i2cSMBusWrite reg i2cSMBusI2CBlockData (0 # replicate 33 0))]
              else []) \<and>
         wire (0 # replicate 33 0) = [0]"
proof -
  have le: "slen buf \<le> 32" using empty by simp
  have r: "trace (snd (ReadBlockData K c a reg buf w)) =
           trace w @ EvIoctl (Fd (f c)) i2cSlave (Val (unat a)) #
             (if fst (addr K c a w) = None
              then [EvIoctl (Fd (f c)) i2cSMBus
                      (Cmd i2cSMBusRead reg i2cSMBusI2CBlockData (0 # replicate 33 0))]
              else [])"
    using ReadBlockData_trace [OF le, of K c a reg w] empty by simp
  have wr: "trace (snd (WriteBlockData K c a reg buf w)) =
           trace w @ EvIoctl (Fd (f c)) i2cSlave (Val (unat a)) #
             (if fst (addr K c a w) = None
              then [EvIoctl (Fd (f c)) i2cSMBus
                      (Cmd i2cSMBusWrite reg i2cSMBusI2CBlockData (0 # replicate 33 0))]
              else [])"
    using WriteBlockData_trace_area [OF le write_block_area_empty [OF empty], of K c a reg] empty
    by simp
  have wi: "wire (0 # replicate 33 0) = [0]" by (simp add: wire_def)
  show ?thesis
    using ReadBlockData_not_sentinel [OF le] WriteBlockData_not_sentinel [OF le] r wr wi
    by blast
qed

text \<open>An empty write to register 0 of the device at 0x50: the kernel sees the one byte 00.\<close>

theorem empty_block_is_transferred_witness:
  "slen buf0 = 0 \<and>
   fst (addr echo_kernel conn3 0x50 (world0 heap4)) = None \<and>
   fst (WriteBlockData echo_kernel conn3 0x50 0 buf0 (world0 heap4)) = None \<and>
   fst (ReadBlockData echo_kernel conn3 0x50 0 buf0 (world0 heap4)) \<noteq> Some errSMBusBlockDataMax \<and>
   trace (snd (WriteBlockData echo_kernel conn3 0x50 0 buf0 (world0 heap4))) =
     [EvIoctl 3 i2cSlave (Val 0x50),
      EvIoctl 3 i2cSMBus (Cmd i2cSMBusWrite 0 i2cSMBusI2CBlockData (0 # replicate 33 0))] \<and>
   trace (snd (ReadBlockData echo_kernel conn3 0x50 0 buf0 (world0 heap4))) =
     [EvIoctl 3 i2cSlave (Val 0x50),
      EvIoctl 3 i2cSMBus (Cmd i2cSMBusRead 0 i2cSMBusI2CBlockData (0 # replicate 33 0))] \<and>
   xfers (kern (snd (WriteBlockData echo_kernel conn3 0x50 0 buf0 (world0 heap4)))) =
     [(0x50, i2cSMBusWrite, 0, [0])]"
proof -
  have empty: "slen buf0 = 0" by code_simp
  have sel: "fst (addr echo_kernel conn3 0x50 (world0 heap4)) = None" by code_simp
  have nil: "fst (WriteBlockData echo_kernel conn3 0x50 0 buf0 (world0 heap4)) = None" by code_simp
  have log: "xfers (kern (snd (WriteBlockData echo_kernel conn3 0x50 0 buf0 (world0 heap4)))) =
     [(0x50, i2cSMBusWrite, 0, [0])]" by code_simp
  have hd: "trace (world0 heap4) = [] \<and> Fd (f conn3) = 3 \<and> unat (0x50 :: u8) = 0x50" by code_simp
  show ?thesis
    using empty_block_is_transferred [OF empty, of echo_kernel conn3 "0x50" 0 "world0 heap4"]
      empty sel nil log
    by (simp add: hd)
qed

section \<open>A block write leaves the caller's memory alone\<close>

text \<open>
  Claim C10. Whatever \<open>WriteBlockData\<close> returns and whatever the kernel does, every
  array that existed before the call holds the same bytes after it; in particular the
  elements of \<open>buf\<close> are unchanged. The only array written, by the copy and by the
  kernel, is the wire buffer the call allocated.
\<close>

theorem WriteBlockData_keeps_memory:
  "(\<forall>r < length (heap w). heap (snd (WriteBlockData K c a reg buf w)) ! r = heap w ! r) \<and>
   (sarr buf < length (heap w) \<longrightarrow>
      elems (heap (snd (WriteBlockData K c a reg buf w))) buf = elems (heap w) buf)"
proof -
  have a: "\<forall>r < length (heap w). heap (snd (WriteBlockData K c a reg buf w)) ! r = heap w ! r"
  proof (cases "slen buf \<le> 32")
    case False
    then show ?thesis by (simp add: WriteBlockData_def i2cSMBusBlockMax_def)
  next
    case le: True
    show ?thesis
    proof (rule addr_cases [of K c a w])
      fix e w1 assume sel: "addr K c a w = (Some (Errno e), w1)"
      then show ?thesis
        using le addr_heap [of K c a w] by (simp add: WriteBlockData_def i2cSMBusBlockMax_def)
    next
      fix w1 assume sel: "addr K c a w = (None, w1)"
      have h1: "heap w1 = heap w" using addr_heap [of K c a w] sel by simp
      show ?thesis
        using le
        by (simp add: WriteBlockData_def i2cSMBusBlockMax_def sel h1 ioctl_heap_UPtr
              make_bytes_def addr_of_def reslice_def store_other copy_other slice_set_other nth_append)
    qed
  qed
  then show ?thesis by (simp add: elems_def)
qed

text \<open>The scenario's write: both arrays of the memory, and the payload, are as before.\<close>

theorem WriteBlockData_keeps_memory_witness:
  "sarr src4 < length (heap (world0 heap4)) \<and>
   heap written ! 0 = heap (world0 heap4) ! 0 \<and>
   heap written ! 1 = heap (world0 heap4) ! 1 \<and>
   elems (heap written) src4 = elems (heap (world0 heap4)) src4 \<and>
   elems (heap written) src4 = [0xDE, 0xAD, 0xBE, 0xEF]"
proof -
  have lt: "sarr src4 < length (heap (world0 heap4))" by code_simp
  have n: "length (heap (world0 heap4)) = 2" by code_simp
  have ps: "elems (heap (world0 heap4)) src4 = [0xDE, 0xAD, 0xBE, 0xEF]" by code_simp
  show ?thesis
    using WriteBlockData_keeps_memory [of "world0 heap4" echo_kernel conn3 "0x50" 0 src4] lt ps
    by (simp add: written_def n)
qed

section \<open>Opening the bus\<close>

text \<open>
  Claim C7, as amended. \<open>OpenFile\<close> and \<open>Open\<close> both open the device file
  \<^verbatim>\<open>/dev/i2c-N\<close> of bus \<open>N\<close> read-write; when that open fails both return nil and the
  error of the open, having made no other system call. When it succeeds, \<open>OpenFile\<close>
  returns a handle on the new descriptor and has issued no ioctl, so no address is
  selected on it; \<open>Open\<close> goes on to issue the address select of \<open>addr\<close> on the
  descriptor and returns the handle only if that select succeeds, so the handle it
  returns has \<open>addr\<close> selected.
\<close>

theorem open_handles:
  "(case k_open K (dev_path bus) O_RDWR perm0600 (kern w) of
      (Inl e, k1) \<Rightarrow>
        OpenFile K bus w =
          (Inl (PathError ''open'' (dev_path bus) e),
           w\<lparr>kern := k1, trace := trace w @ [EvOpen (dev_path bus)]\<rparr>) \<and>
        Open K bus a w =
          (Inl (PathError ''open'' (dev_path bus) e),
           w\<lparr>kern := k1, trace := trace w @ [EvOpen (dev_path bus)]\<rparr>)
    | (Inr d, k1) \<Rightarrow>
        OpenFile K bus w =
          (Inr \<lparr>f = \<lparr>Fd = d, Name = dev_path bus\<rparr>\<rparr>,
           w\<lparr>kern := k1, open_files := d # open_files w,
             trace := trace w @ [EvOpen (dev_path bus)]\<rparr>) \<and>
        (case k_ioctl K d i2cSlave (Val (unat a)) k1 of
           ((e, wr), k2) \<Rightarrow>
             Open K bus a w =
               (if e \<noteq> 0 then Inl (Errno e) else Inr \<lparr>f = \<lparr>Fd = d, Name = dev_path bus\<rparr>\<rparr>,
                w\<lparr>kern := k2, open_files := d # open_files w,
                  trace := trace w @ [EvOpen (dev_path bus),
                                      EvIoctl d i2cSlave (Val (unat a))]\<rparr>)))"
  by (simp add: OpenFile_failed Open_failed OpenFile_opened Open_opened
        split: prod.splits sum.splits)

text \<open>
  On the simulated kernel, which has the one bus 1: bus 7 cannot be opened; \<open>OpenFile\<close>
  of bus 1 gives descriptor 3 with no address selected; \<open>Open\<close> of bus 1 at 0x44
  gives descriptor 3 with 0x44 selected.
\<close>

theorem open_handles_witness:
  "dev_path 1 = ''/dev/i2c-1'' \<and>
   fst (OpenFile echo_kernel 7 (world0 [])) = Inl (PathError ''open'' ''/dev/i2c-7'' ENOENT) \<and>
   fst (Open echo_kernel 7 0x44 (world0 [])) = Inl (PathError ''open'' ''/dev/i2c-7'' ENOENT) \<and>
   trace (snd (Open echo_kernel 7 0x44 (world0 []))) = [EvOpen ''/dev/i2c-7''] \<and>
   fst (OpenFile echo_kernel 1 (world0 [])) = Inr conn3 \<and>
   trace (snd (OpenFile echo_kernel 1 (world0 []))) = [EvOpen ''/dev/i2c-1''] \<and>
   selected (kern (snd (OpenFile echo_kernel 1 (world0 [])))) 3 = None \<and>
   fst (Open echo_kernel 1 0x44 (world0 [])) = Inr conn3 \<and>
   trace (snd (Open echo_kernel 1 0x44 (world0 []))) =
     [EvOpen ''/dev/i2c-1'', EvIoctl 3 i2cSlave (Val 0x44)] \<and>
   selected (kern (snd (Open echo_kernel 1 0x44 (world0 [])))) 3 = Some 0x44"
proof -
  have p1: "dev_path 1 = ''/dev/i2c-1''" by code_simp
  have p7: "dev_path 7 = ''/dev/i2c-7''" by code_simp
  have o7: "k_open echo_kernel ''/dev/i2c-7'' O_RDWR perm0600 (kern (world0 [])) = (Inl ENOENT, sim0)"
    by (simp add: echo_kernel_def sim_kernel_def sim_open_def world0_def)
  have o1: "k_open echo_kernel ''/dev/i2c-1'' O_RDWR perm0600 (kern (world0 [])) =
              (Inr 3, sim0\<lparr>next_fd := 4\<rparr>)"
    by (simp add: echo_kernel_def sim_kernel_def sim_open_def world0_def sim0_def)
  have ev: "fst (Open echo_kernel 1 0x44 (world0 [])) = Inr conn3 \<and>
     trace (snd (Open echo_kernel 1 0x44 (world0 []))) =
       [EvOpen ''/dev/i2c-1'', EvIoctl 3 i2cSlave (Val 0x44)] \<and>
     selected (kern (snd (Open echo_kernel 1 0x44 (world0 [])))) 3 = Some 0x44"
    by code_simp
  have t: "trace (world0 []) = [] \<and> open_files (world0 []) = []" by (simp add: world0_def)
  show ?thesis
    using open_handles [of echo_kernel 7 "world0 []" "0x44"]
      open_handles [of echo_kernel 1 "world0 []" "0x44"] ev
    by (simp add: p1 p7 o7 o1 t conn3_def sim0_def)
qed

text \<open>
  Claim C7 as it was stated fails for \<open>Open\<close>: the handle it returns for bus 1 and
  address 0x44 has had one ioctl issued on it, the select, and 0x44 is selected.
\<close>

theorem Open_selects_counterexample:
  "fst (Open echo_kernel 1 0x44 (world0 [])) = Inr conn3 \<and>
   ioctls (trace (snd (Open echo_kernel 1 0x44 (world0 [])))) = 1 \<and>
   trace (snd (Open echo_kernel 1 0x44 (world0 []))) =
     [EvOpen ''/dev/i2c-1'', EvIoctl (Fd (f conn3)) i2cSlave (Val 0x44)] \<and>
   selected (kern (snd (Open echo_kernel 1 0x44 (world0 [])))) (Fd (f conn3)) = Some 0x44"
  by code_simp

section \<open>A select that fails inside Open\<close>

text \<open>
  Claim C9. When the device file was opened on descriptor \<open>d\<close> and the address select
  then fails with errno \<open>e\<close>, \<open>Open\<close> returns nil and that error; the system calls it
  made are the open and the select, with no close after them, and \<open>d\<close> is still among
  the descriptors the process holds open.
\<close>

theorem Open_failed_select_keeps_file:
  assumes opened: "k_open K (dev_path bus) O_RDWR perm0600 (kern w) = (Inr d, k1)"
    and sel: "k_ioctl K d i2cSlave (Val (unat a)) k1 = ((e, wr), k2)"
    and fail: "e \<noteq> 0"
  shows "Open K bus a w =
           (Inl (Errno e),
            w\<lparr>kern := k2, open_files := d # open_files w,
              trace := trace w @ [EvOpen (dev_path bus), EvIoctl d i2cSlave (Val (unat a))]\<rparr>) \<and>
         d \<in> set (open_files (snd (Open K bus a w))) \<and>
         EvClose d \<notin> set (drop (length (trace w)) (trace (snd (Open K bus a w))))"
  using fail by (simp add: Open_opened [OF opened sel])

text \<open>
  On the kernel that refuses addresses above 0x7f: \<open>Open\<close> of bus 1 at 0x80 fails
  with EINVAL and leaves descriptor 3 open.
\<close>

theorem Open_failed_select_keeps_file_witness:
  "k_open strict_kernel (dev_path 1) O_RDWR perm0600 (kern (world0 [])) =
     (Inr 3, sim0\<lparr>next_fd := 4\<rparr>) \<and>
   k_ioctl strict_kernel 3 i2cSlave (Val (unat (0x80 :: u8))) (sim0\<lparr>next_fd := 4\<rparr>) =
     ((EINVAL, []), sim0\<lparr>next_fd := 4\<rparr>) \<and>
   EINVAL \<noteq> 0 \<and>
   fst (Open strict_kernel 1 0x80 (world0 [])) = Inl (Errno EINVAL) \<and>
   open_files (snd (Open strict_kernel 1 0x80 (world0 []))) = [3] \<and>
   trace (snd (Open strict_kernel 1 0x80 (world0 []))) =
     [EvOpen ''/dev/i2c-1'', EvIoctl 3 i2cSlave (Val 0x80)]"
proof -
  have p1: "dev_path 1 = ''/dev/i2c-1''" by code_simp
  have opened: "k_open strict_kernel (dev_path 1) O_RDWR perm0600 (kern (world0 [])) =
                  (Inr 3, sim0\<lparr>next_fd := 4\<rparr>)"
    by (simp add: p1 strict_kernel_def sim_kernel_def sim_open_def world0_def sim0_def)
  have sel: "k_ioctl strict_kernel 3 i2cSlave (Val (unat (0x80 :: u8))) (sim0\<lparr>next_fd := 4\<rparr>) =
               ((EINVAL, []), sim0\<lparr>next_fd := 4\<rparr>)"
    by (simp add: strict_kernel_def sim_kernel_def sim_ioctl_def)
  have fail: "EINVAL \<noteq> 0" by (simp add: EINVAL_def)
  have t: "trace (world0 []) = [] \<and> open_files (world0 []) = []" by (simp add: world0_def)
  show ?thesis
    using Open_failed_select_keeps_file [OF opened sel fail] opened sel fail
    by (simp add: p1 t)
qed

end
